theory Spec2Isabelle
  imports Main "HOL-Library.Word"
begin

unbundle bit_operations_syntax

section \<open>The GameCube adapter driver (Source/Core/InputCommon/GCAdapter.cpp)\<close>

text \<open>
  The driver keeps its whole state in file-scope statics. They are gathered here in one
  record that every function takes and returns. The file is compiled in one of two ways,
  \<^verbatim>\<open>GCADAPTER_USE_LIBUSB_IMPLEMENTATION\<close> (the default) and
  \<^verbatim>\<open>GCADAPTER_USE_ANDROID_IMPLEMENTATION\<close> (when \<^verbatim>\<open>ANDROID\<close> is defined); the
  field \<open>android\<close> of the environment selects the branch of every \<^verbatim>\<open>#if\<close>. The
  Android branch is modelled as it is written, although as given it does not compile:
  \<open>Read\<close> names \<open>Write\<close> (line 204) before any declaration of it.

  Each function is modelled as the effect of one call on the statics, as seen by the calling
  thread. The loop bodies of the read and write threads of the libusb build are step
  functions of their own (\<open>Read_iteration\<close>, \<open>Write_iteration\<close>). A \<^verbatim>\<open>join\<close> waits
  for a thread to return: what the joined thread still writes to the statics on its way out
  is part of the call that joins it. Log output is not part of the state.
\<close>

subsection \<open>Types and constants\<close>

type_synonym u8 = "8 word"
type_synonym u16 = "16 word"
type_synonym u64 = "64 word"

text \<open>
  \<^verbatim>\<open>enum class ControllerType : u8 { None = 0, Wired = 1, Wireless = 2 }\<close>. \<open>Input\<close>
  obtains a value of this type by \<^verbatim>\<open>static_cast\<close> from a nibble of the payload, so every
  value from 0 to 15 can occur: the type is the underlying byte.
\<close>

type_synonym ControllerType = u8

definition ControllerType_None :: ControllerType where
  "ControllerType_None = 0"

definition ControllerType_Wired :: ControllerType where
  "ControllerType_Wired = 1"

definition ControllerType_Wireless :: ControllerType where
  "ControllerType_Wireless = 2"

definition NO_ADAPTER_DETECTED :: int where
  "NO_ADAPTER_DETECTED = 0"

definition ADAPTER_DETECTED :: int where
  "ADAPTER_DETECTED = 1"

definition CONTROLER_INPUT_PAYLOAD_EXPECTED_SIZE :: nat where
  "CONTROLER_INPUT_PAYLOAD_EXPECTED_SIZE = 37"

definition CONTROLER_OUTPUT_INIT_PAYLOAD_SIZE :: nat where
  "CONTROLER_OUTPUT_INIT_PAYLOAD_SIZE = 1"

definition CONTROLER_OUTPUT_RUMBLE_PAYLOAD_SIZE :: nat where
  "CONTROLER_OUTPUT_RUMBLE_PAYLOAD_SIZE = 5"

text \<open>
  \<^verbatim>\<open>SerialInterface::MAX_SI_CHANNELS\<close> is declared in SI.h, outside src/. The source
  fixes its value: \<open>s_controller_type\<close> has four initialisers and \<open>Write\<close> reads the
  rumble bytes 0 to 3.
\<close>

definition MAX_SI_CHANNELS :: nat where
  "MAX_SI_CHANNELS = 4"

text \<open>Constants of libusb.h (the USB library, not part of this repository).\<close>

definition LIBUSB_DT_HID :: u8 where
  "LIBUSB_DT_HID = 0x21"

definition LIBUSB_ENDPOINT_IN :: u8 where
  "LIBUSB_ENDPOINT_IN = 0x80"

definition LIBUSB_ERROR_ACCESS :: int where
  "LIBUSB_ERROR_ACCESS = - 3"

definition LIBUSB_ERROR_NOT_FOUND :: int where
  "LIBUSB_ERROR_NOT_FOUND = - 5"

definition LIBUSB_ERROR_NOT_SUPPORTED :: int where
  "LIBUSB_ERROR_NOT_SUPPORTED = - 12"

text \<open>
  \<^verbatim>\<open>GCPadStatus\<close> and the \<^verbatim>\<open>PAD_*\<close> masks are declared in
  InputCommon/GCPadStatus.h, outside src/. The record has the fields \<open>Input\<close> writes;
  the masks are parameters.
\<close>

record GCPadStatus =
  button :: u16
  stickX :: u8
  stickY :: u8
  substickX :: u8
  substickY :: u8
  triggerLeft :: u8
  triggerRight :: u8

text \<open>
  Modelled from the spec: the value of \<^verbatim>\<open>GCPadStatus{}\<close>, whose declaration
  (GCPadStatus.h) is not under src/. The spec calls it the "zeroed/neutral state".
\<close>

definition GCPadStatus_init :: GCPadStatus where
  "GCPadStatus_init =
     \<lparr>button = 0, stickX = 0, stickY = 0, substickX = 0, substickY = 0,
      triggerLeft = 0, triggerRight = 0\<rparr>"

record pad_masks =
  PAD_BUTTON_A :: u16
  PAD_BUTTON_B :: u16
  PAD_BUTTON_X :: u16
  PAD_BUTTON_Y :: u16
  PAD_BUTTON_LEFT :: u16
  PAD_BUTTON_RIGHT :: u16
  PAD_BUTTON_DOWN :: u16
  PAD_BUTTON_UP :: u16
  PAD_BUTTON_START :: u16
  PAD_TRIGGER_Z :: u16
  PAD_TRIGGER_R :: u16
  PAD_TRIGGER_L :: u16
  PAD_GET_ORIGIN :: u16
  PAD_ERR_STATUS :: u16

text \<open>\<^verbatim>\<open>Core::State\<close> (Core.h, outside src/); \<open>Init\<close> tells only two of its values apart.\<close>

datatype Core_State = Uninitialized | Paused | Running | Stopping | Starting

text \<open>
  What the read thread of the Android build still does when a caller has cleared
  \<open>s_read_adapter_thread_running\<close> and joins it. \<open>opens_adapter\<close>: the thread had not
  reached its loop and \<^verbatim>\<open>OpenAdapter\<close> now succeeds. \<open>last_read\<close>: the bytes of the
  Java payload array and the size of a read the thread completes before it tests the
  flag. \<open>write_waiting\<close>: the write thread is blocked in
  \<^verbatim>\<open>s_write_happened.Wait()\<close> when it is asked to stop.
\<close>

record read_join =
  opens_adapter :: bool
  last_read :: "(u8 list \<times> int) option"
  write_waiting :: bool

text \<open>
  The environment of a call: the build (\<open>android\<close>, \<open>apple\<close> for \<^verbatim>\<open>__APPLE__\<close>), the
  constants declared outside src/, and what the collaborators answer when asked
  (\<^verbatim>\<open>Core::WantsDeterminism\<close>, \<^verbatim>\<open>Core::GetState\<close>, \<^verbatim>\<open>CoreTiming::GetTicks\<close>,
  \<^verbatim>\<open>SystemTimers::GetTicksPerSecond\<close>, \<^verbatim>\<open>Config::Get\<close>, the validity of a newly made
  libusb context, the id \<^verbatim>\<open>Config::AddConfigChangedCallback\<close> returns, and what a
  joined read thread does on its way out).
\<close>

record env =
  android :: bool
  apple :: bool
  masks :: pad_masks
  SIDEVICE_WIIU_ADAPTER :: int
  WantsDeterminism :: bool
  GetState :: Core_State
  GetTicks :: u64
  GetTicksPerSecond :: u64
  Config_SIDevice :: "nat \<Rightarrow> int"
  Config_AdapterRumble :: "nat \<Rightarrow> bool"
  new_context_valid :: bool
  new_callback_id :: nat
  join_read :: read_join

subsection \<open>The statics\<close>

text \<open>
  Pointers are options (\<open>None\<close> is \<^verbatim>\<open>nullptr\<close>), \<^verbatim>\<open>std::array\<close>s are lists,
  \<^verbatim>\<open>Common::Flag\<close> and \<^verbatim>\<open>Common::Event\<close> are booleans, \<open>s_init_mutex\<close> is \<open>True\<close>
  while another thread holds the mutex, \<open>s_detect_callback\<close> is \<open>True\<close> when a callback is
  registered. Two fields record what leaves the driver: \<open>detect_callback_calls\<close> counts the
  calls of \<open>s_detect_callback\<close>, and \<open>usb_out\<close> lists the interrupt transfers issued to
  the output endpoint (endpoint address and bytes), oldest first.
\<close>

record adapter_state =
  s_status :: int
  s_handle :: "nat option"
  s_detected :: bool
  s_fd :: int
  s_controller_type :: "ControllerType list"
  s_controller_rumble :: "u8 list"
  s_controller_payload :: "u8 list"
  s_controller_payload_swap :: "u8 list"
  s_controller_payload_size :: int
  s_adapter_thread_running :: bool
  s_rumble_data_available :: bool
  s_init_mutex :: bool
  s_controller_write_payload :: "u8 list"
  s_controller_write_payload_size :: int
  s_read_adapter_thread_running :: bool
  s_write_adapter_thread_running :: bool
  s_write_happened :: bool
  s_adapter_detect_thread_running :: bool
  s_detect_callback :: bool
  s_libusb_context :: "bool option"
  s_endpoint_in :: u8
  s_endpoint_out :: u8
  s_last_init :: u64
  s_config_callback_id :: "nat option"
  s_config_si_device_type :: "int list"
  s_config_rumble_enabled :: "bool list"
  detect_callback_calls :: nat
  usb_out :: "(u8 \<times> u8 list) list"

text \<open>The sizes the array types fix.\<close>

definition wf_state :: "adapter_state \<Rightarrow> bool" where
  "wf_state s \<longleftrightarrow>
     length (s_controller_type s) = MAX_SI_CHANNELS \<and>
     length (s_controller_rumble s) = MAX_SI_CHANNELS \<and>
     length (s_controller_payload s) = CONTROLER_INPUT_PAYLOAD_EXPECTED_SIZE \<and>
     length (s_controller_payload_swap s) = CONTROLER_INPUT_PAYLOAD_EXPECTED_SIZE \<and>
     length (s_controller_write_payload s) = CONTROLER_OUTPUT_RUMBLE_PAYLOAD_SIZE \<and>
     length (s_config_si_device_type s) = MAX_SI_CHANNELS \<and>
     length (s_config_rumble_enabled s) = MAX_SI_CHANNELS"

text \<open>\<^verbatim>\<open>std::array::fill\<close>.\<close>

definition fill :: "'a \<Rightarrow> 'a list \<Rightarrow> 'a list" where
  "fill v xs = map (\<lambda>_. v) xs"

subsection \<open>UseAdapter, DeviceConnected, ResetDeviceType\<close>

definition UseAdapter :: "env \<Rightarrow> adapter_state \<Rightarrow> bool" where
  "UseAdapter e s =
     list_ex (\<lambda>device_type. device_type = SIDEVICE_WIIU_ADAPTER e) (s_config_si_device_type s)"

text \<open>
  \<open>chan\<close> is an \<^verbatim>\<open>int\<close> that indexes arrays of \<open>MAX_SI_CHANNELS\<close> elements unchecked.
  An index outside the array is undefined behaviour in C++: the model returns \<open>None\<close>.
\<close>

definition in_range :: "int \<Rightarrow> bool" where
  "in_range chan \<longleftrightarrow> 0 \<le> chan \<and> chan < int MAX_SI_CHANNELS"

definition DeviceConnected :: "int \<Rightarrow> adapter_state \<Rightarrow> bool option" where
  "DeviceConnected chan s =
     (if in_range chan then Some (s_controller_type s ! nat chan \<noteq> ControllerType_None)
      else None)"

definition ResetDeviceType :: "int \<Rightarrow> adapter_state \<Rightarrow> adapter_state option" where
  "ResetDeviceType chan s =
     (if in_range chan
      then Some (s\<lparr>s_controller_type := (s_controller_type s)[nat chan := ControllerType_None]\<rparr>)
      else None)"

subsection \<open>The rumble payload and ResetRumble\<close>

definition rumble_payload :: "u8 list \<Rightarrow> u8 list" where
  "rumble_payload r = [0x11, r ! 0, r ! 1, r ! 2, r ! 3]"

text \<open>
  libusb build only. \<^verbatim>\<open>std::fill\<close> zeroes the rumble bytes, then one payload is sent.
\<close>

definition ResetRumbleLockNeeded :: "env \<Rightarrow> adapter_state \<Rightarrow> adapter_state" where
  "ResetRumbleLockNeeded e s =
     (if \<not> UseAdapter e s \<or> (s_handle s = None \<or> s_status s \<noteq> ADAPTER_DETECTED) then s
      else
        let s1 = s\<lparr>s_controller_rumble := fill 0 (s_controller_rumble s)\<rparr>;
            rumble = rumble_payload (s_controller_rumble s1)
        in s1\<lparr>usb_out := usb_out s1 @ [(s_endpoint_out s1, rumble)]\<rparr>)"

definition ResetRumble :: "env \<Rightarrow> adapter_state \<Rightarrow> adapter_state" where
  "ResetRumble e s =
     (if android e
      then s\<lparr>s_controller_write_payload := [0x11, 0, 0, 0, 0],
             s_controller_write_payload_size := int CONTROLER_OUTPUT_RUMBLE_PAYLOAD_SIZE,
             s_write_happened := True\<rparr>
      else if s_init_mutex s then s
      else ResetRumbleLockNeeded e s)"

subsection \<open>Reset\<close>

text \<open>
  The way out of \<open>Read\<close> in the Android build, from the moment its run flag is
  cleared. A thread that had not reached its loop and opens the adapter sets
  \<open>s_write_adapter_thread_running\<close>, starts the write thread and calls
  \<open>ResetRumble\<close>; the loop body is then skipped. A thread in its loop may complete one
  read: 37 bytes of the Java array are copied into \<open>s_controller_payload\<close> and the size
  is recorded (the \<open>s_fd\<close> a first read stores is overwritten below). If the write
  thread runs, its flag is cleared, the staged size is set to 0 and \<open>s_write_happened\<close>
  is set; the write thread is joined, and clears the event only if it was waiting on it.
  Last, \<open>s_fd\<close> and \<open>s_detected\<close> are cleared.
\<close>

definition Read_leave :: "env \<Rightarrow> adapter_state \<Rightarrow> adapter_state" where
  "Read_leave e s =
     (let j = join_read e;
          s1 = (if opens_adapter j
                then ResetRumble e (s\<lparr>s_write_adapter_thread_running := True\<rparr>)
                else case last_read j of
                       None \<Rightarrow> s
                     | Some (java_data, read_size) \<Rightarrow>
                         let copied = take CONTROLER_INPUT_PAYLOAD_EXPECTED_SIZE java_data
                         in s\<lparr>s_controller_payload :=
                                copied @ drop (length copied) (s_controller_payload s),
                              s_controller_payload_size := read_size\<rparr>);
          s2 = (if s_write_adapter_thread_running s1
                then s1\<lparr>s_write_adapter_thread_running := False,
                        s_controller_write_payload_size := 0,
                        s_write_happened := \<not> write_waiting j\<rparr>
                else s1)
      in s2\<lparr>s_fd := 0, s_detected := False\<rparr>)"

text \<open>
  \<open>Reset\<close>. libusb build: \<^verbatim>\<open>try_lock\<close> on \<open>s_init_mutex\<close> fails when another
  thread holds it, and the function returns; the lock it takes is released on return. The
  \<^verbatim>\<open>join\<close>s wait for the two I/O threads: the write thread wakes on the event (which
  \<^verbatim>\<open>Wait\<close> clears), sees the flag cleared and returns. Android build: the read thread
  is joined only if its run flag was set, and then leaves as \<open>Read_leave\<close> says.
\<close>

definition Reset :: "env \<Rightarrow> adapter_state \<Rightarrow> adapter_state" where
  "Reset e s =
     (if android e then
        if \<not> s_detected s then s
        else
          let s1 = (if s_read_adapter_thread_running s
                    then Read_leave e (s\<lparr>s_read_adapter_thread_running := False\<rparr>)
                    else s);
              s2 = s1\<lparr>s_controller_type := fill ControllerType_None (s_controller_type s1)\<rparr>
          in s2\<lparr>s_detected := False, s_fd := 0\<rparr>
      else
        if s_init_mutex s then s
        else if s_status s \<noteq> ADAPTER_DETECTED then s
        else
          let s1 = (if s_adapter_thread_running s
                    then s\<lparr>s_adapter_thread_running := False, s_rumble_data_available := False\<rparr>
                    else s);
              s2 = s1\<lparr>s_controller_type := fill ControllerType_None (s_controller_type s1)\<rparr>;
              s3 = s2\<lparr>s_status := NO_ADAPTER_DETECTED\<rparr>;
              s4 = (if s_handle s3 \<noteq> None then s3\<lparr>s_handle := None\<rparr> else s3)
          in if s_detect_callback s4
             then s4\<lparr>detect_callback_calls := Suc (detect_callback_calls s4)\<rparr>
             else s4)"

subsection \<open>Input\<close>

text \<open>
  One statement \<^verbatim>\<open>if (b & (1 << k)) pad.button |= MASK;\<close> of \<open>Input\<close>, and
  \<^verbatim>\<open>if (get_origin) pad.button |= PAD_GET_ORIGIN;\<close>.
\<close>

definition or_if :: "bool \<Rightarrow> u16 \<Rightarrow> u16 \<Rightarrow> u16" where
  "or_if c m b = (if c then b OR m else b)"

definition test_bit :: "u8 \<Rightarrow> nat \<Rightarrow> bool" where
  "test_bit b k \<longleftrightarrow> b AND push_bit k 1 \<noteq> 0"

text \<open>The thirteen conditional assignments to \<open>pad.button\<close>, in the order of the source.\<close>

definition decode_buttons :: "pad_masks \<Rightarrow> u8 \<Rightarrow> u8 \<Rightarrow> bool \<Rightarrow> u16 \<Rightarrow> u16" where
  "decode_buttons m b1 b2 get_origin b =
     or_if get_origin (PAD_GET_ORIGIN m)
      (or_if (test_bit b2 3) (PAD_TRIGGER_L m)
      (or_if (test_bit b2 2) (PAD_TRIGGER_R m)
      (or_if (test_bit b2 1) (PAD_TRIGGER_Z m)
      (or_if (test_bit b2 0) (PAD_BUTTON_START m)
      (or_if (test_bit b1 7) (PAD_BUTTON_UP m)
      (or_if (test_bit b1 6) (PAD_BUTTON_DOWN m)
      (or_if (test_bit b1 5) (PAD_BUTTON_RIGHT m)
      (or_if (test_bit b1 4) (PAD_BUTTON_LEFT m)
      (or_if (test_bit b1 3) (PAD_BUTTON_Y m)
      (or_if (test_bit b1 2) (PAD_BUTTON_X m)
      (or_if (test_bit b1 1) (PAD_BUTTON_B m)
      (or_if (test_bit b1 0) (PAD_BUTTON_A m) b))))))))))))"

text \<open>
  \<open>Input\<close>. The copy of the payload is taken under the mutex; the index
  \<open>1 + 9 * chan\<close> and \<open>s_controller_type[chan]\<close> are only reached on the decoding
  branch.
\<close>

definition Input :: "env \<Rightarrow> int \<Rightarrow> adapter_state \<Rightarrow> (GCPadStatus \<times> adapter_state) option" where
  "Input e chan s =
     (if \<not> UseAdapter e s then Some (GCPadStatus_init, s)
      else if (if android e then \<not> s_detected s \<or> s_fd s = 0
               else s_handle s = None \<or> s_status s \<noteq> ADAPTER_DETECTED)
      then Some (GCPadStatus_init, s)
      else
        let controller_payload_copy = s_controller_payload s;
            payload_size = s_controller_payload_size s;
            pad = GCPadStatus_init
        in
          if payload_size \<noteq> int CONTROLER_INPUT_PAYLOAD_EXPECTED_SIZE \<or>
             (\<not> android e \<and> controller_payload_copy ! 0 \<noteq> LIBUSB_DT_HID)
          then Some (pad, if android e then Reset e s else s)
          else if \<not> in_range chan then None
          else
            let c = nat chan;
                type = drop_bit 4 (controller_payload_copy ! (1 + 9 * c));
                get_origin = (type \<noteq> ControllerType_None \<and>
                              s_controller_type s ! c = ControllerType_None);
                s' = s\<lparr>s_controller_type := (s_controller_type s)[c := type]\<rparr>
            in
              if s_controller_type s' ! c \<noteq> ControllerType_None then
                let b1 = controller_payload_copy ! (1 + 9 * c + 1);
                    b2 = controller_payload_copy ! (1 + 9 * c + 2)
                in Some
                  (pad\<lparr>button := decode_buttons (masks e) b1 b2 get_origin (button pad),
                       stickX := controller_payload_copy ! (1 + 9 * c + 3),
                       stickY := controller_payload_copy ! (1 + 9 * c + 4),
                       substickX := controller_payload_copy ! (1 + 9 * c + 5),
                       substickY := controller_payload_copy ! (1 + 9 * c + 6),
                       triggerLeft := controller_payload_copy ! (1 + 9 * c + 7),
                       triggerRight := controller_payload_copy ! (1 + 9 * c + 8)\<rparr>, s')
              else if \<not> WantsDeterminism e then Some (pad\<lparr>button := PAD_ERR_STATUS (masks e)\<rparr>, s')
              else Some (pad, s'))"

subsection \<open>Output\<close>

definition Output :: "env \<Rightarrow> int \<Rightarrow> u8 \<Rightarrow> adapter_state \<Rightarrow> adapter_state option" where
  "Output e chan rumble_command s =
     (if \<not> UseAdapter e s then Some s
      else if \<not> in_range chan then None
      else
        let c = nat chan in
          if \<not> s_config_rumble_enabled s ! c then Some s
          else if (if android e then \<not> s_detected s \<or> s_fd s = 0 else s_handle s = None)
          then Some s
          else if rumble_command \<noteq> s_controller_rumble s ! c \<and>
                  s_controller_type s ! c \<noteq> ControllerType_Wireless
          then
            let s1 = s\<lparr>s_controller_rumble := (s_controller_rumble s)[c := rumble_command]\<rparr>
            in if android e
               then Some (s1\<lparr>s_controller_write_payload := rumble_payload (s_controller_rumble s1),
                              s_controller_write_payload_size :=
                                int CONTROLER_OUTPUT_RUMBLE_PAYLOAD_SIZE,
                              s_write_happened := True\<rparr>)
               else Some (s1\<lparr>s_rumble_data_available := True\<rparr>)
          else Some s)"

subsection \<open>The I/O threads of the libusb build\<close>

text \<open>
  One turn of the loop of \<open>Write\<close>. \<open>None\<close>: the thread stays blocked in
  \<^verbatim>\<open>s_rumble_data_available.Wait()\<close>. \<^verbatim>\<open>Wait\<close> clears the event; with the run flag
  cleared the thread returns without sending.
\<close>

definition Write_iteration :: "adapter_state \<Rightarrow> adapter_state option" where
  "Write_iteration s =
     (if \<not> s_rumble_data_available s then None
      else
        let s1 = s\<lparr>s_rumble_data_available := False\<rparr>
        in if \<not> s_adapter_thread_running s1 then Some s1
           else
             let payload = rumble_payload (s_controller_rumble s1)
             in Some (s1\<lparr>usb_out := usb_out s1 @ [(s_endpoint_out s1, payload)]\<rparr>))"

text \<open>
  One turn of the loop of \<open>Read\<close>: the transfer puts the bytes \<open>data\<close> it received
  (at most 37) at the start of the swap buffer and reports \<open>payload_size\<close>; the buffers
  are then exchanged. \<open>None\<close>: the run flag is cleared and the loop ends.
\<close>

definition Read_iteration :: "u8 list \<Rightarrow> int \<Rightarrow> adapter_state \<Rightarrow> adapter_state option" where
  "Read_iteration data payload_size s =
     (if \<not> s_adapter_thread_running s then None
      else
        let received = take CONTROLER_INPUT_PAYLOAD_EXPECTED_SIZE data;
            swap = received @ drop (length received) (s_controller_payload_swap s)
        in Some (s\<lparr>s_controller_payload_swap := s_controller_payload s,
                     s_controller_payload := swap,
                     s_controller_payload_size := payload_size\<rparr>))"

subsection \<open>Probing and claiming a device (libusb build)\<close>

text \<open>
  A \<^verbatim>\<open>libusb_device\<close> as the driver sees it: what each libusb call on it returns. The
  configuration descriptor is the list of interfaces, each a list of alternate settings,
  each a list of endpoint addresses; \<open>None\<close> when
  \<^verbatim>\<open>libusb_get_config_descriptor\<close> fails and leaves the pointer null.
\<close>

record usb_device =
  get_device_descriptor_ret :: int
  idVendor :: u16
  idProduct :: u16
  open_ret :: int
  open_handle :: nat
  kernel_driver_active_ret :: int
  detach_kernel_driver_ret :: int
  claim_interface_ret :: int
  config_descriptor :: "u8 list list list option"

text \<open>
  \<open>CheckDeviceAccess\<close>. The scope guard, armed after the vendor/product test, stores the
  current \<open>ret\<close> into \<open>s_status\<close> on every later return but the successful one. The
  control transfer only logs a warning.
\<close>

definition CheckDeviceAccess :: "env \<Rightarrow> usb_device \<Rightarrow> adapter_state \<Rightarrow> bool \<times> adapter_state" where
  "CheckDeviceAccess e device s =
     (let ret = get_device_descriptor_ret device in
        if ret \<noteq> 0 then (False, s)
        else if idVendor device \<noteq> 0x057e \<or> idProduct device \<noteq> 0x0337 then (False, s)
        else
          let ret = open_ret device in
            if ret = LIBUSB_ERROR_ACCESS then (False, s\<lparr>s_status := ret\<rparr>)
            else if ret \<noteq> 0 then (False, s\<lparr>s_status := ret\<rparr>)
            else
              let s1 = s\<lparr>s_handle := Some (open_handle device)\<rparr>;
                  ret = kernel_driver_active_ret device;
                  detach = (ret = 1 \<and> \<not> apple e);
                  ret = (if detach then detach_kernel_driver_ret device else ret);
                  detach_failed = (detach \<and> ret < 0 \<and> ret \<noteq> LIBUSB_ERROR_NOT_FOUND \<and>
                                   ret \<noteq> LIBUSB_ERROR_NOT_SUPPORTED)
              in
                if detach_failed then (False, s1\<lparr>s_handle := None, s_status := ret\<rparr>)
                else
                  let ret = claim_interface_ret device in
                    if ret \<noteq> 0 then (False, s1\<lparr>s_handle := None, s_status := ret\<rparr>)
                    else (True, s1))"

definition scan_endpoint :: "adapter_state \<Rightarrow> u8 \<Rightarrow> adapter_state" where
  "scan_endpoint s bEndpointAddress =
     (if bEndpointAddress AND LIBUSB_ENDPOINT_IN \<noteq> 0
      then s\<lparr>s_endpoint_in := bEndpointAddress\<rparr>
      else s\<lparr>s_endpoint_out := bEndpointAddress\<rparr>)"

text \<open>
  \<open>AddGCAdapter\<close>. The source does not test what \<^verbatim>\<open>libusb_get_config_descriptor\<close>
  returns: with a null \<open>config\<close> the first loop dereferences it (\<open>None\<close>).
\<close>

definition AddGCAdapter :: "env \<Rightarrow> usb_device \<Rightarrow> adapter_state \<Rightarrow> adapter_state option" where
  "AddGCAdapter e device s =
     (case config_descriptor device of
        None \<Rightarrow> None
      | Some config \<Rightarrow>
          let s1 = foldl scan_endpoint s (concat (concat config));
              payload = [0x13];
              s2 = s1\<lparr>usb_out := usb_out s1 @ [(s_endpoint_out s1, payload)]\<rparr>;
              s3 = s2\<lparr>s_adapter_thread_running := True\<rparr>;
              s4 = s3\<lparr>s_status := ADAPTER_DETECTED\<rparr>;
              s5 = (if s_detect_callback s4
                    then s4\<lparr>detect_callback_calls := Suc (detect_callback_calls s4)\<rparr>
                    else s4)
          in Some (ResetRumbleLockNeeded e s5))"

text \<open>The callback \<open>Setup\<close> hands to \<^verbatim>\<open>GetDeviceList\<close>: stop at the first adapter.\<close>

fun GetDeviceList :: "env \<Rightarrow> usb_device list \<Rightarrow> adapter_state \<Rightarrow> adapter_state option" where
  "GetDeviceList e [] s = Some s"
| "GetDeviceList e (device # devices) s =
     (case CheckDeviceAccess e device s of
        (True, s1) \<Rightarrow> AddGCAdapter e device s1
      | (False, s1) \<Rightarrow> GetDeviceList e devices s1)"

definition Setup :: "env \<Rightarrow> usb_device list \<Rightarrow> adapter_state \<Rightarrow> adapter_state option" where
  "Setup e devices s =
     (if android e
      then
        let s1 = s\<lparr>s_fd := 0, s_detected := True\<rparr>;
            s2 = (if s_read_adapter_thread_running s1
                  then Read_leave e (s1\<lparr>s_read_adapter_thread_running := False\<rparr>)
                  else s1)
        in Some (s2\<lparr>s_read_adapter_thread_running := True\<rparr>)
      else
        let prev_status = s_status s;
            s1 = (if s_status s < 0 then s\<lparr>s_status := NO_ADAPTER_DETECTED\<rparr> else s);
            s2 = s1\<lparr>s_controller_type := fill ControllerType_None (s_controller_type s1),
                    s_controller_rumble := fill 0 (s_controller_rumble s1)\<rparr>
        in case GetDeviceList e devices s2 of
             None \<Rightarrow> None
           | Some s3 \<Rightarrow>
               Some (if s_status s3 \<noteq> ADAPTER_DETECTED \<and> prev_status \<noteq> s_status s3 \<and>
                        s_detect_callback s3
                     then s3\<lparr>detect_callback_calls := Suc (detect_callback_calls s3)\<rparr>
                     else s3))"

subsection \<open>Init\<close>

definition RefreshConfig :: "env \<Rightarrow> adapter_state \<Rightarrow> adapter_state" where
  "RefreshConfig e s =
     s\<lparr>s_config_si_device_type := map (Config_SIDevice e) [0 ..< MAX_SI_CHANNELS],
       s_config_rumble_enabled := map (Config_AdapterRumble e) [0 ..< MAX_SI_CHANNELS]\<rparr>"

text \<open>
  \<open>StartScanThread\<close>. In the libusb build \<^verbatim>\<open>s_libusb_context->IsValid()\<close> dereferences
  the context pointer: \<open>None\<close> when it is null.
\<close>

definition StartScanThread :: "env \<Rightarrow> adapter_state \<Rightarrow> adapter_state option" where
  "StartScanThread e s =
     (if s_adapter_detect_thread_running s then Some s
      else if android e then Some (s\<lparr>s_adapter_detect_thread_running := True\<rparr>)
      else
        case s_libusb_context s of
          None \<Rightarrow> None
        | Some valid \<Rightarrow>
            if \<not> valid then Some s
            else Some (s\<lparr>s_adapter_detect_thread_running := True\<rparr>))"

text \<open>
  \<open>Init\<close>. The subtraction is on \<^verbatim>\<open>u64\<close> and wraps. In the libusb build the new
  context is made before the rate limit is tested.
\<close>

definition Init :: "env \<Rightarrow> adapter_state \<Rightarrow> adapter_state option" where
  "Init e s =
     (if (if android e then s_fd s \<noteq> 0 else s_handle s \<noteq> None) then Some s
      else
        let s0 = (if android e then s else s\<lparr>s_libusb_context := Some (new_context_valid e)\<rparr>);
            active = (GetState e \<noteq> Uninitialized \<and> GetState e \<noteq> Starting)
        in
          if active \<and> GetTicks e - s_last_init s0 < GetTicksPerSecond e then Some s0
          else
            let s1 = (if active then s0\<lparr>s_last_init := GetTicks e\<rparr> else s0);
                s2 = (if android e then s1 else s1\<lparr>s_status := NO_ADAPTER_DETECTED\<rparr>);
                s3 = (if s_config_callback_id s2 = None
                      then s2\<lparr>s_config_callback_id := Some (new_callback_id e)\<rparr>
                      else s2);
                s4 = RefreshConfig e s3
            in if UseAdapter e s4 then StartScanThread e s4 else Some s4)"

subsection \<open>IsDetected\<close>

text \<open>The boolean \<open>IsDetected\<close> returns; the error message it can hand out is a string.\<close>

definition IsDetected :: "env \<Rightarrow> adapter_state \<Rightarrow> bool" where
  "IsDetected e s =
     (if android e then s_detected s
      else if s_status s \<ge> 0 then s_status s = ADAPTER_DETECTED
      else False)"

section \<open>Vocabulary of the properties\<close>

text \<open>
  The masks are parameters, so the properties that read single buttons out of
  \<open>button\<close> need them to be what the header makes them: non-zero and pairwise
  disjoint.
\<close>

definition mask_list :: "pad_masks \<Rightarrow> u16 list" where
  "mask_list m =
     [PAD_BUTTON_A m, PAD_BUTTON_B m, PAD_BUTTON_X m, PAD_BUTTON_Y m,
      PAD_BUTTON_LEFT m, PAD_BUTTON_RIGHT m, PAD_BUTTON_DOWN m, PAD_BUTTON_UP m,
      PAD_BUTTON_START m, PAD_TRIGGER_Z m, PAD_TRIGGER_R m, PAD_TRIGGER_L m,
      PAD_GET_ORIGIN m, PAD_ERR_STATUS m]"

fun disjoint_masks :: "u16 list \<Rightarrow> bool" where
  "disjoint_masks [] = True"
| "disjoint_masks (m # ms) = (m \<noteq> 0 \<and> list_all (\<lambda>k. m AND k = 0) ms \<and> disjoint_masks ms)"

definition masks_independent :: "pad_masks \<Rightarrow> bool" where
  "masks_independent m = disjoint_masks (mask_list m)"

definition pressed :: "GCPadStatus \<Rightarrow> u16 \<Rightarrow> bool" where
  "pressed pad m \<longleftrightarrow> button pad AND m \<noteq> 0"

definition button_masks :: "pad_masks \<Rightarrow> u16" where
  "button_masks m =
     PAD_BUTTON_A m OR PAD_BUTTON_B m OR PAD_BUTTON_X m OR PAD_BUTTON_Y m OR
     PAD_BUTTON_LEFT m OR PAD_BUTTON_RIGHT m OR PAD_BUTTON_DOWN m OR PAD_BUTTON_UP m OR
     PAD_BUTTON_START m OR PAD_TRIGGER_Z m OR PAD_TRIGGER_R m OR PAD_TRIGGER_L m"

text \<open>
  The guards \<open>Input\<close> passes before it decodes: a session is open, and the copied
  payload has the expected size and (libusb build) header byte. \<open>port_byte s chan k\<close>
  is byte \<open>k\<close> of the nine-byte record of port \<open>chan\<close>.
\<close>

definition session_open :: "env \<Rightarrow> adapter_state \<Rightarrow> bool" where
  "session_open e s \<longleftrightarrow>
     (if android e then s_detected s \<and> s_fd s \<noteq> 0
      else s_handle s \<noteq> None \<and> s_status s = ADAPTER_DETECTED)"

definition payload_valid :: "env \<Rightarrow> adapter_state \<Rightarrow> bool" where
  "payload_valid e s \<longleftrightarrow>
     s_controller_payload_size s = int CONTROLER_INPUT_PAYLOAD_EXPECTED_SIZE \<and>
     (android e \<or> s_controller_payload s ! 0 = LIBUSB_DT_HID)"

definition port_byte :: "adapter_state \<Rightarrow> int \<Rightarrow> nat \<Rightarrow> u8" where
  "port_byte s chan k = s_controller_payload s ! (1 + 9 * nat chan + k)"

definition decoded_type :: "adapter_state \<Rightarrow> int \<Rightarrow> ControllerType" where
  "decoded_type s chan = drop_bit 4 (port_byte s chan 0)"

text \<open>
  \<open>Output\<close>: its guard on the open device, the condition under which it stages a new
  rumble byte, and the state it then returns.
\<close>

definition device_open :: "env \<Rightarrow> adapter_state \<Rightarrow> bool" where
  "device_open e s \<longleftrightarrow>
     (if android e then s_detected s \<and> s_fd s \<noteq> 0 else s_handle s \<noteq> None)"

definition rumble_changes :: "env \<Rightarrow> int \<Rightarrow> u8 \<Rightarrow> adapter_state \<Rightarrow> bool" where
  "rumble_changes e chan cmd s \<longleftrightarrow>
     UseAdapter e s \<and> s_config_rumble_enabled s ! nat chan \<and> device_open e s \<and>
     cmd \<noteq> s_controller_rumble s ! nat chan \<and>
     s_controller_type s ! nat chan \<noteq> ControllerType_Wireless"

definition stage_rumble :: "env \<Rightarrow> int \<Rightarrow> u8 \<Rightarrow> adapter_state \<Rightarrow> adapter_state" where
  "stage_rumble e chan cmd s =
     (let r = (s_controller_rumble s)[nat chan := cmd]
      in if android e
         then s\<lparr>s_controller_rumble := r, s_controller_write_payload := rumble_payload r,
                s_controller_write_payload_size := int CONTROLER_OUTPUT_RUMBLE_PAYLOAD_SIZE,
                s_write_happened := True\<rparr>
         else s\<lparr>s_controller_rumble := r, s_rumble_data_available := True\<rparr>)"

text \<open>\<open>DeviceConnected\<close> answers false for each of the four ports.\<close>

definition all_disconnected :: "adapter_state \<Rightarrow> bool" where
  "all_disconnected s \<longleftrightarrow> list_all (\<lambda>port. DeviceConnected port s = Some False) [0, 1, 2, 3]"

text \<open>
  \<open>Init\<close>: the test for an open session it starts with, and its rate limit.
\<close>

definition session_held :: "env \<Rightarrow> adapter_state \<Rightarrow> bool" where
  "session_held e s \<longleftrightarrow> (if android e then s_fd s \<noteq> 0 else s_handle s \<noteq> None)"

definition core_active :: "env \<Rightarrow> bool" where
  "core_active e \<longleftrightarrow> GetState e \<noteq> Uninitialized \<and> GetState e \<noteq> Starting"

definition rate_limited :: "env \<Rightarrow> adapter_state \<Rightarrow> bool" where
  "rate_limited e s \<longleftrightarrow> core_active e \<and> GetTicks e - s_last_init s < GetTicksPerSecond e"

text \<open>
  What can happen while a session is open: calls of the public functions by the
  emulator, and turns of the two I/O threads. \<open>session_run\<close> applies a list of such
  events in order; it is \<open>None\<close> when one of them cannot happen (an index out of
  range, the write thread not woken, the read thread stopped).
\<close>

datatype session_event =
  Ev_Input int
  | Ev_Output int u8
  | Ev_ResetRumble
  | Ev_ResetDeviceType int
  | Ev_Write
  | Ev_Read "u8 list" int

fun apply_event :: "env \<Rightarrow> session_event \<Rightarrow> adapter_state \<Rightarrow> adapter_state option" where
  "apply_event e (Ev_Input chan) s = map_option snd (Input e chan s)"
| "apply_event e (Ev_Output chan rumble_command) s = Output e chan rumble_command s"
| "apply_event e Ev_ResetRumble s = Some (ResetRumble e s)"
| "apply_event e (Ev_ResetDeviceType chan) s = ResetDeviceType chan s"
| "apply_event e Ev_Write s = Write_iteration s"
| "apply_event e (Ev_Read data payload_size) s = Read_iteration data payload_size s"

fun session_run :: "env \<Rightarrow> session_event list \<Rightarrow> adapter_state \<Rightarrow> adapter_state option" where
  "session_run e [] s = Some s"
| "session_run e (ev # evs) s =
     (case apply_event e ev s of None \<Rightarrow> None | Some s1 \<Rightarrow> session_run e evs s1)"

text \<open>A transfer that carries a rumble payload: five bytes, the first \<open>0x11\<close>.\<close>

definition rumble_transfer :: "u8 \<times> u8 list \<Rightarrow> bool" where
  "rumble_transfer p \<longleftrightarrow>
     length (snd p) = CONTROLER_OUTPUT_RUMBLE_PAYLOAD_SIZE \<and> hd (snd p) = 0x11"

subsection \<open>Concrete inputs\<close>

text \<open>
  The masks of the GameCube pad interface, an environment of the libusb build, and states
  with and without an open session; \<open>wired_payload\<close> has a wired controller with A held
  on port 0.
\<close>

definition gc_masks :: pad_masks where
  "gc_masks =
     \<lparr>PAD_BUTTON_A = 0x0100, PAD_BUTTON_B = 0x0200, PAD_BUTTON_X = 0x0400,
      PAD_BUTTON_Y = 0x0800, PAD_BUTTON_LEFT = 0x0001, PAD_BUTTON_RIGHT = 0x0002,
      PAD_BUTTON_DOWN = 0x0004, PAD_BUTTON_UP = 0x0008, PAD_BUTTON_START = 0x1000,
      PAD_TRIGGER_Z = 0x0010, PAD_TRIGGER_R = 0x0020, PAD_TRIGGER_L = 0x0040,
      PAD_GET_ORIGIN = 0x2000, PAD_ERR_STATUS = 0x8000\<rparr>"

definition libusb_env :: env where
  "libusb_env =
     \<lparr>android = False, apple = False, masks = gc_masks, SIDEVICE_WIIU_ADAPTER = 12,
      WantsDeterminism = False, GetState = Running, GetTicks = 1000,
      GetTicksPerSecond = 486000000, Config_SIDevice = (\<lambda>i. if i = 0 then 12 else 0),
      Config_AdapterRumble = (\<lambda>i. i = 0), new_context_valid = True, new_callback_id = 7,
      join_read = \<lparr>opens_adapter = False, last_read = None, write_waiting = True\<rparr>\<rparr>"

definition wired_payload :: "u8 list" where
  "wired_payload =
     [0x21,
      0x10, 0x01, 0x00, 0x80, 0x7F, 0x81, 0x7E, 0x1F, 0x20,
      0x00, 0x00, 0x00, 0x00, 0x00, 0x00, 0x00, 0x00, 0x00,
      0x00, 0x00, 0x00, 0x00, 0x00, 0x00, 0x00, 0x00, 0x00,
      0x00, 0x00, 0x00, 0x00, 0x00, 0x00, 0x00, 0x00, 0x00]"

definition idle_state :: adapter_state where
  "idle_state =
     \<lparr>s_status = NO_ADAPTER_DETECTED, s_handle = None, s_detected = False, s_fd = 0,
      s_controller_type = [0, 0, 0, 0], s_controller_rumble = [0, 0, 0, 0],
      s_controller_payload = replicate 37 0, s_controller_payload_swap = replicate 37 0,
      s_controller_payload_size = 0, s_adapter_thread_running = False,
      s_rumble_data_available = False, s_init_mutex = False,
      s_controller_write_payload = [0, 0, 0, 0, 0], s_controller_write_payload_size = 0,
      s_read_adapter_thread_running = False, s_write_adapter_thread_running = False,
      s_write_happened = False,
      s_adapter_detect_thread_running = False, s_detect_callback = True,
      s_libusb_context = None, s_endpoint_in = 0, s_endpoint_out = 0, s_last_init = 0,
      s_config_callback_id = None, s_config_si_device_type = [0, 0, 0, 0],
      s_config_rumble_enabled = [False, False, False, False],
      detect_callback_calls = 0, usb_out = []\<rparr>"

definition session_state :: adapter_state where
  "session_state =
     idle_state\<lparr>s_status := ADAPTER_DETECTED, s_handle := Some 1,
       s_adapter_thread_running := True, s_libusb_context := Some True,
       s_endpoint_in := 0x81, s_endpoint_out := 0x02,
       s_config_si_device_type := [12, 0, 0, 0],
       s_config_rumble_enabled := [True, False, False, False],
       s_controller_payload := wired_payload, s_controller_payload_size := 37\<rparr>"

definition libusb_short_read :: adapter_state where
  "libusb_short_read =
     session_state\<lparr>s_controller_type := [0, 1, 0, 0], s_controller_payload_size := 10\<rparr>"

text \<open>
  The adapter configured on port 0 but not plugged in; sessions with controllers
  tracked, one of them while another thread holds \<open>s_init_mutex\<close>; a USB device
  that is not the adapter and one that is; later readings of the tick counter.
\<close>

definition configured_idle :: adapter_state where
  "configured_idle =
     idle_state\<lparr>s_libusb_context := Some True, s_adapter_detect_thread_running := True,
       s_config_callback_id := Some 7, s_config_si_device_type := [12, 0, 0, 0],
       s_config_rumble_enabled := [True, False, False, False]\<rparr>"

definition locked_session :: adapter_state where
  "locked_session = session_state\<lparr>s_controller_type := [1, 0, 0, 0], s_init_mutex := True\<rparr>"

definition connected_session :: adapter_state where
  "connected_session = session_state\<lparr>s_controller_type := [1, 0, 2, 0]\<rparr>"

definition other_device :: usb_device where
  "other_device =
     \<lparr>get_device_descriptor_ret = 0, idVendor = 0x057e, idProduct = 0x0306, open_ret = 0,
      open_handle = 3, kernel_driver_active_ret = 0, detach_kernel_driver_ret = 0,
      claim_interface_ret = 0, config_descriptor = Some [[[0x81, 0x02]]]\<rparr>"

definition gc_adapter :: usb_device where
  "gc_adapter = other_device\<lparr>idProduct := 0x0337\<rparr>"

definition later_env :: env where
  "later_env = libusb_env\<lparr>GetTicks := 486001000, new_context_valid := False\<rparr>"

definition soon_env :: env where
  "soon_env = later_env\<lparr>GetTicks := 486002000\<rparr>"

text \<open>
  Three calls of \<open>Init\<close> while the core runs: at tick 486001000 (\<open>later_env\<close>), about
  0.82 s later (\<open>within_env\<close>) and about 0.2 s after that (\<open>after_env\<close>, by when the
  configuration enables rumble on every port). \<open>accepted_state\<close> is the state the first
  call leaves.
\<close>

definition within_env :: env where
  "within_env = later_env\<lparr>GetTicks := 886001000\<rparr>"

definition after_env :: env where
  "after_env = later_env\<lparr>GetTicks := 986001000, Config_AdapterRumble := (\<lambda>i. True)\<rparr>"

definition accepted_state :: adapter_state where
  "accepted_state =
     configured_idle\<lparr>s_libusb_context := Some False, s_last_init := 486001000\<rparr>"

section \<open>Properties\<close>

subsection \<open>Helper lemmas\<close>

lemma or_if_other:
  assumes "m AND k = 0 \<or> k AND m = 0"
  shows "or_if c m b AND k = b AND k"
proof -
  from assms have "m AND k = 0"
    by (auto simp: and.commute)
  then show ?thesis
    by (simp add: or_if_def bit.conj_disj_distrib2)
qed

lemma or_if_same: "or_if c k b AND k = (if c then k else b AND k)"
  by (simp add: or_if_def bit.conj_disj_distrib2)

lemma and_push_bit_1: "(b::u8) AND push_bit k 1 = (if bit b k then push_bit k 1 else 0)"
  by (rule bit_eqI) (auto simp: bit_and_iff bit_push_bit_iff bit_1_iff bit_exp_iff)

lemma test_bit_iff: "k < 8 \<Longrightarrow> test_bit b k \<longleftrightarrow> bit b k"
  unfolding test_bit_def and_push_bit_1
  by (auto simp: exp_eq_zero_iff)  

lemma masks_disjoint:
  assumes "masks_independent m"
  shows "disjoint_masks (mask_list m)"
  using assms by (simp add: masks_independent_def)

lemma decode_buttons_and:
  assumes "masks_independent m"
  shows "decode_buttons m b1 b2 g 0 AND PAD_BUTTON_A m = (if test_bit b1 0 then PAD_BUTTON_A m else 0)"
    and "decode_buttons m b1 b2 g 0 AND PAD_BUTTON_B m = (if test_bit b1 1 then PAD_BUTTON_B m else 0)"
    and "decode_buttons m b1 b2 g 0 AND PAD_BUTTON_X m = (if test_bit b1 2 then PAD_BUTTON_X m else 0)"
    and "decode_buttons m b1 b2 g 0 AND PAD_BUTTON_Y m = (if test_bit b1 3 then PAD_BUTTON_Y m else 0)"
    and "decode_buttons m b1 b2 g 0 AND PAD_BUTTON_LEFT m = (if test_bit b1 4 then PAD_BUTTON_LEFT m else 0)"
    and "decode_buttons m b1 b2 g 0 AND PAD_BUTTON_RIGHT m = (if test_bit b1 5 then PAD_BUTTON_RIGHT m else 0)"
    and "decode_buttons m b1 b2 g 0 AND PAD_BUTTON_DOWN m = (if test_bit b1 6 then PAD_BUTTON_DOWN m else 0)"
    and "decode_buttons m b1 b2 g 0 AND PAD_BUTTON_UP m = (if test_bit b1 7 then PAD_BUTTON_UP m else 0)"
    and "decode_buttons m b1 b2 g 0 AND PAD_BUTTON_START m = (if test_bit b2 0 then PAD_BUTTON_START m else 0)"
    and "decode_buttons m b1 b2 g 0 AND PAD_TRIGGER_Z m = (if test_bit b2 1 then PAD_TRIGGER_Z m else 0)"
    and "decode_buttons m b1 b2 g 0 AND PAD_TRIGGER_R m = (if test_bit b2 2 then PAD_TRIGGER_R m else 0)"
    and "decode_buttons m b1 b2 g 0 AND PAD_TRIGGER_L m = (if test_bit b2 3 then PAD_TRIGGER_L m else 0)"
    and "decode_buttons m b1 b2 g 0 AND PAD_GET_ORIGIN m = (if g then PAD_GET_ORIGIN m else 0)"
    and "decode_buttons m b1 b2 g 0 AND PAD_ERR_STATUS m = 0"
  using masks_disjoint [OF assms] unfolding decode_buttons_def mask_list_def
  by (simp_all add: or_if_other or_if_same)

lemma masks_nonzero:
  assumes "masks_independent m"
  shows "list_all (\<lambda>k. k \<noteq> 0) (mask_list m)"
  using masks_disjoint [OF assms] unfolding mask_list_def by simp

lemma or_if_within:
  assumes "b AND NOT u = 0" and "m AND NOT u = 0"
  shows "or_if c m b AND NOT u = 0"
  using assms by (simp add: or_if_def bit.conj_disj_distrib2)

lemma decode_buttons_within:
  "decode_buttons m b1 b2 g 0 AND NOT (button_masks m OR PAD_GET_ORIGIN m) = 0"
  unfolding decode_buttons_def
  by (intro or_if_within; (rule bit_eqI)?)
     (simp_all add: button_masks_def bit_and_iff bit_or_iff bit_not_iff)

subsection \<open>Decoding a wired controller\<close>

text \<open>
  C1. For a port in range, with the adapter in use, a session open and a valid payload
  whose record for the port has type Wired, \<open>Input\<close> returns, marks the port
  connected, reports each button exactly when its bit is set in the two button bytes
  (bits 0-7 of the first: A, B, X, Y, Left, Right, Down, Up; bits 0-3 of the second:
  Start, Z, R, L), sets no bit outside the button masks and the origin flag, and
  returns the six following bytes unchanged as the stick, C-stick and trigger values.
\<close>

theorem Input_wired_decodes_record:
  assumes indep: "masks_independent (masks e)"
    and wf: "wf_state s"
    and use: "UseAdapter e s"
    and sess: "session_open e s"
    and valid: "payload_valid e s"
    and chan: "in_range chan"
    and wired: "decoded_type s chan = ControllerType_Wired"
  shows "\<exists>pad s'. Input e chan s = Some (pad, s') \<and>
           DeviceConnected chan s' = Some True \<and>
           (pressed pad (PAD_BUTTON_A (masks e)) \<longleftrightarrow> bit (port_byte s chan 1) 0) \<and>
           (pressed pad (PAD_BUTTON_B (masks e)) \<longleftrightarrow> bit (port_byte s chan 1) 1) \<and>
           (pressed pad (PAD_BUTTON_X (masks e)) \<longleftrightarrow> bit (port_byte s chan 1) 2) \<and>
           (pressed pad (PAD_BUTTON_Y (masks e)) \<longleftrightarrow> bit (port_byte s chan 1) 3) \<and>
           (pressed pad (PAD_BUTTON_LEFT (masks e)) \<longleftrightarrow> bit (port_byte s chan 1) 4) \<and>
           (pressed pad (PAD_BUTTON_RIGHT (masks e)) \<longleftrightarrow> bit (port_byte s chan 1) 5) \<and>
           (pressed pad (PAD_BUTTON_DOWN (masks e)) \<longleftrightarrow> bit (port_byte s chan 1) 6) \<and>
           (pressed pad (PAD_BUTTON_UP (masks e)) \<longleftrightarrow> bit (port_byte s chan 1) 7) \<and>
           (pressed pad (PAD_BUTTON_START (masks e)) \<longleftrightarrow> bit (port_byte s chan 2) 0) \<and>
           (pressed pad (PAD_TRIGGER_Z (masks e)) \<longleftrightarrow> bit (port_byte s chan 2) 1) \<and>
           (pressed pad (PAD_TRIGGER_R (masks e)) \<longleftrightarrow> bit (port_byte s chan 2) 2) \<and>
           (pressed pad (PAD_TRIGGER_L (masks e)) \<longleftrightarrow> bit (port_byte s chan 2) 3) \<and>
           button pad AND NOT (button_masks (masks e) OR PAD_GET_ORIGIN (masks e)) = 0 \<and>
           stickX pad = port_byte s chan 3 \<and> stickY pad = port_byte s chan 4 \<and>
           substickX pad = port_byte s chan 5 \<and> substickY pad = port_byte s chan 6 \<and>
           triggerLeft pad = port_byte s chan 7 \<and> triggerRight pad = port_byte s chan 8"
proof -
  let ?c = "nat chan"
  let ?g = "s_controller_type s ! ?c = ControllerType_None"
  let ?btn = "decode_buttons (masks e) (port_byte s chan 1) (port_byte s chan 2) ?g 0"
  let ?pad = "\<lparr>button = ?btn, stickX = port_byte s chan 3, stickY = port_byte s chan 4,
                substickX = port_byte s chan 5, substickY = port_byte s chan 6,
                triggerLeft = port_byte s chan 7, triggerRight = port_byte s chan 8\<rparr>"
  let ?s' = "s\<lparr>s_controller_type := (s_controller_type s)[?c := ControllerType_Wired]\<rparr>"
  from chan wf have len: "?c < length (s_controller_type s)"
    by (auto simp: in_range_def wf_state_def MAX_SI_CHANNELS_def)
  have ty: "drop_bit 4 (s_controller_payload s ! (1 + 9 * ?c)) = ControllerType_Wired"
    using wired by (simp add: decoded_type_def port_byte_def)
  have run: "Input e chan s = Some (?pad, ?s')"
    using use sess valid chan len ty
    by (simp add: Input_def session_open_def payload_valid_def port_byte_def Let_def
        GCPadStatus_init_def ControllerType_Wired_def ControllerType_None_def
        split: if_splits)
  have conn: "DeviceConnected chan ?s' = Some True"
    using chan len
    by (simp add: DeviceConnected_def ControllerType_Wired_def ControllerType_None_def)
  note nz = masks_nonzero [OF indep, unfolded mask_list_def, simplified]
  note db = decode_buttons_and [OF indep, of "port_byte s chan 1" "port_byte s chan 2" ?g]
  have btn: "button ?pad = ?btn"
    by simp
  show ?thesis
    apply (rule exI [of _ ?pad], rule exI [of _ ?s'])
    apply (intro conjI)
                       apply (rule run)
                      apply (rule conn)
                     apply (simp_all only: pressed_def btn db decode_buttons_within)
                     apply (simp_all add: nz test_bit_iff)
    done
qed

theorem Input_wired_decodes_record_witness:
  "\<exists>pad s'. Input libusb_env 0 session_state = Some (pad, s') \<and>
     DeviceConnected 0 s' = Some True \<and>
     pressed pad (PAD_BUTTON_A gc_masks) \<and> \<not> pressed pad (PAD_BUTTON_B gc_masks) \<and>
     \<not> pressed pad (PAD_BUTTON_START gc_masks) \<and>
     stickX pad = 0x80 \<and> triggerRight pad = 0x20"
  using Input_wired_decodes_record [of libusb_env session_state 0]
  by (simp add: masks_independent_def mask_list_def gc_masks_def libusb_env_def
      wf_state_def session_state_def idle_state_def wired_payload_def UseAdapter_def
      session_open_def payload_valid_def in_range_def decoded_type_def port_byte_def
      MAX_SI_CHANNELS_def CONTROLER_INPUT_PAYLOAD_EXPECTED_SIZE_def
      CONTROLER_OUTPUT_RUMBLE_PAYLOAD_SIZE_def ADAPTER_DETECTED_def LIBUSB_DT_HID_def
      ControllerType_Wired_def)
    blast

subsection \<open>What Input returns on each of its paths\<close>

lemmas example_defs =
  libusb_env_def gc_masks_def session_state_def idle_state_def
  wired_payload_def libusb_short_read_def

lemmas constant_defs =
  MAX_SI_CHANNELS_def CONTROLER_INPUT_PAYLOAD_EXPECTED_SIZE_def
  CONTROLER_OUTPUT_RUMBLE_PAYLOAD_SIZE_def ADAPTER_DETECTED_def NO_ADAPTER_DETECTED_def
  LIBUSB_DT_HID_def ControllerType_None_def ControllerType_Wired_def
  ControllerType_Wireless_def

lemmas guard_defs =
  wf_state_def UseAdapter_def session_open_def payload_valid_def in_range_def
  decoded_type_def port_byte_def masks_independent_def mask_list_def

lemma nat_chan_less:
  assumes "in_range chan" and "wf_state s"
  shows "nat chan < length (s_controller_type s)"
  using assms by (auto simp: in_range_def wf_state_def MAX_SI_CHANNELS_def)

text \<open>What \<open>Input\<close> returns once its guards are passed.\<close>

lemma Input_decode:
  assumes "UseAdapter e s" and "session_open e s" and "payload_valid e s" and "in_range chan"
    and "wf_state s"
  shows "Input e chan s =
     Some (if decoded_type s chan \<noteq> ControllerType_None
           then \<lparr>button = decode_buttons (masks e) (port_byte s chan 1) (port_byte s chan 2)
                            (s_controller_type s ! nat chan = ControllerType_None) 0,
                 stickX = port_byte s chan 3, stickY = port_byte s chan 4,
                 substickX = port_byte s chan 5, substickY = port_byte s chan 6,
                 triggerLeft = port_byte s chan 7, triggerRight = port_byte s chan 8\<rparr>
           else if \<not> WantsDeterminism e
           then GCPadStatus_init\<lparr>button := PAD_ERR_STATUS (masks e)\<rparr>
           else GCPadStatus_init,
           s\<lparr>s_controller_type := (s_controller_type s)[nat chan := decoded_type s chan]\<rparr>)"
  using assms(1-4) nat_chan_less [OF assms(4,5)]
  by (simp add: Input_def session_open_def payload_valid_def port_byte_def decoded_type_def
      Let_def GCPadStatus_init_def split: if_splits)

lemma Input_invalid:
  assumes "\<not> payload_valid e s"
  shows "Input e chan s =
           Some (GCPadStatus_init,
                 if android e \<and> UseAdapter e s \<and> session_open e s then Reset e s else s)"
  using assms
  by (auto simp: Input_def payload_valid_def session_open_def Let_def)

lemma Read_leave_frame:
  assumes "android e"
  shows "s_controller_type (Read_leave e s) = s_controller_type s"
    and "s_controller_rumble (Read_leave e s) = s_controller_rumble s"
    and "detect_callback_calls (Read_leave e s) = detect_callback_calls s"
    and "usb_out (Read_leave e s) = usb_out s"
    and "s_endpoint_out (Read_leave e s) = s_endpoint_out s"
  using assms
  by (simp_all add: Read_leave_def ResetRumble_def Let_def split: option.splits prod.splits)

lemma Input_closed:
  assumes "\<not> UseAdapter e s \<or> \<not> session_open e s"
  shows "Input e chan s = Some (GCPadStatus_init, s)"
  using assms by (auto simp: Input_def session_open_def)

lemma Input_decode_state:
  assumes "UseAdapter e s" and "session_open e s" and "payload_valid e s"
    and "Input e chan s = Some (pad, s')"
  shows "s' = s\<lparr>s_controller_type := (s_controller_type s)[nat chan := decoded_type s chan]\<rparr>"
  using assms
  by (simp add: Input_def session_open_def payload_valid_def decoded_type_def port_byte_def
      Let_def split: if_splits)

lemma all_disconnected_fill:
  assumes "wf_state s" and "s_controller_type s' = fill ControllerType_None (s_controller_type s)"
  shows "all_disconnected s'"
  using assms
  by (simp add: all_disconnected_def DeviceConnected_def in_range_def fill_def wf_state_def
      MAX_SI_CHANNELS_def)

subsection \<open>A payload that fails validation\<close>



subsection \<open>Two calls over the same payload\<close>

lemma decode_buttons_origin:
  assumes "masks_independent m"
  shows "decode_buttons m b1 b2 g 0 AND NOT (PAD_GET_ORIGIN m) = decode_buttons m b1 b2 False 0"
proof -
  let ?x = "decode_buttons m b1 b2 False 0"
  have split: "decode_buttons m b1 b2 g 0 = or_if g (PAD_GET_ORIGIN m) ?x"
    by (simp add: decode_buttons_def or_if_def)
  have "?x AND PAD_GET_ORIGIN m = 0"
    using decode_buttons_and(13) [OF assms, of b1 b2 False] by simp
  moreover have "?x = (?x AND PAD_GET_ORIGIN m) OR (?x AND NOT (PAD_GET_ORIGIN m))"
    by (simp add: bit.conj_disj_distrib [symmetric])
  ultimately have "?x AND NOT (PAD_GET_ORIGIN m) = ?x"
    by simp
  then show ?thesis
    unfolding split by (simp add: or_if_def bit.conj_disj_distrib2)
qed


lemma ERR_STATUS_no_origin:
  assumes "masks_independent m"
  shows "PAD_ERR_STATUS m AND NOT (PAD_GET_ORIGIN m) = PAD_ERR_STATUS m"
proof -
  have "PAD_GET_ORIGIN m AND PAD_ERR_STATUS m = 0"
    using masks_disjoint [OF assms] by (simp add: mask_list_def)
  then have "PAD_ERR_STATUS m AND PAD_GET_ORIGIN m = 0"
    by (simp add: and.commute)
  moreover have "PAD_ERR_STATUS m =
      (PAD_ERR_STATUS m AND PAD_GET_ORIGIN m) OR (PAD_ERR_STATUS m AND NOT (PAD_GET_ORIGIN m))"
    by (simp add: bit.conj_disj_distrib [symmetric])
  ultimately show ?thesis
    by simp
qed

text \<open>
  C3. With a session open and a valid payload, two consecutive calls of \<open>Input\<close> for
  the same port both return; the second leaves the state as the first left it, and its
  result is the first result with the one-shot origin bit cleared: the two results agree
  in every button bit and every analog field, and the second call never sets the origin
  bit. The origin bit is set by the first call exactly when the decoded type is not None
  while the tracked type was None.
\<close>

theorem Input_twice:
  assumes indep: "masks_independent (masks e)"
    and wf: "wf_state s"
    and use: "UseAdapter e s"
    and sess: "session_open e s"
    and valid: "payload_valid e s"
    and chan: "in_range chan"
  shows "\<exists>pad1 s1 pad2.
           Input e chan s = Some (pad1, s1) \<and> Input e chan s1 = Some (pad2, s1) \<and>
           pad2 = pad1\<lparr>button := button pad1 AND NOT (PAD_GET_ORIGIN (masks e))\<rparr> \<and>
           \<not> pressed pad2 (PAD_GET_ORIGIN (masks e)) \<and>
           (pressed pad1 (PAD_GET_ORIGIN (masks e)) \<longleftrightarrow>
              decoded_type s chan \<noteq> ControllerType_None \<and>
              s_controller_type s ! nat chan = ControllerType_None)"
proof -
  let ?t = "decoded_type s chan"
  let ?s1 = "s\<lparr>s_controller_type := (s_controller_type s)[nat chan := ?t]\<rparr>"
  note len = nat_chan_less [OF chan wf]
  have use1: "UseAdapter e ?s1" and sess1: "session_open e ?s1"
    and valid1: "payload_valid e ?s1" and wf1: "wf_state ?s1"
    using use sess valid wf
    by (simp_all add: UseAdapter_def session_open_def payload_valid_def wf_state_def)
  have same: "decoded_type ?s1 chan = ?t" "\<And>k. port_byte ?s1 chan k = port_byte s chan k"
    by (simp_all add: decoded_type_def port_byte_def)
  have again: "?s1\<lparr>s_controller_type := (s_controller_type ?s1)[nat chan := ?t]\<rparr> = ?s1"
    by simp
  have tracked: "s_controller_type ?s1 ! nat chan = ?t"
    using len by simp
  define pad_of where "pad_of g =
     (if ?t \<noteq> ControllerType_None
      then \<lparr>button = decode_buttons (masks e) (port_byte s chan 1) (port_byte s chan 2) g 0,
            stickX = port_byte s chan 3, stickY = port_byte s chan 4,
            substickX = port_byte s chan 5, substickY = port_byte s chan 6,
            triggerLeft = port_byte s chan 7, triggerRight = port_byte s chan 8\<rparr>
      else if \<not> WantsDeterminism e
      then GCPadStatus_init\<lparr>button := PAD_ERR_STATUS (masks e)\<rparr>
      else GCPadStatus_init)" for g
  have first: "Input e chan s =
      Some (pad_of (s_controller_type s ! nat chan = ControllerType_None), ?s1)"
    unfolding pad_of_def by (rule Input_decode [OF use sess valid chan wf])
  have second: "Input e chan ?s1 = Some (pad_of (?t = ControllerType_None), ?s1)"
    using Input_decode [OF use1 sess1 valid1 chan wf1]
    unfolding same again tracked pad_of_def .
  note org = masks_nonzero [OF indep, unfolded mask_list_def, simplified]
  have cleared: "pad_of (?t = ControllerType_None) =
      (pad_of g)\<lparr>button := button (pad_of g) AND NOT (PAD_GET_ORIGIN (masks e))\<rparr>" for g
    by (simp add: pad_of_def GCPadStatus_init_def ERR_STATUS_no_origin [OF indep]
        decode_buttons_origin [OF indep])
  have "PAD_GET_ORIGIN (masks e) AND PAD_ERR_STATUS (masks e) = 0"
    using masks_disjoint [OF indep] by (simp add: mask_list_def)
  then have err: "PAD_ERR_STATUS (masks e) AND PAD_GET_ORIGIN (masks e) = 0"
    by (simp add: and.commute)
  have no_origin: "\<not> pressed (pad_of (?t = ControllerType_None)) (PAD_GET_ORIGIN (masks e))"
    by (simp add: pad_of_def pressed_def GCPadStatus_init_def decode_buttons_and(13) [OF indep]
        err)
  have origin: "pressed (pad_of g) (PAD_GET_ORIGIN (masks e)) \<longleftrightarrow>
      ?t \<noteq> ControllerType_None \<and> g" for g
    by (simp add: pad_of_def pressed_def GCPadStatus_init_def
        decode_buttons_and(13) [OF indep] org err)
  show ?thesis
    using first second cleared no_origin origin by blast
qed


theorem Input_twice_witness:
  "\<exists>pad1 s1 pad2.
     Input libusb_env 0 session_state = Some (pad1, s1) \<and>
     Input libusb_env 0 s1 = Some (pad2, s1) \<and>
     pad2 = pad1\<lparr>button := button pad1 AND NOT 0x2000\<rparr> \<and>
     pressed pad1 0x2000 \<and> \<not> pressed pad2 0x2000"
  using Input_twice [of libusb_env session_state 0]
  by (simp add: example_defs constant_defs guard_defs) blast

subsection \<open>No controller on the port\<close>

text \<open>
  C7. With a session open and a valid payload whose record for the port has type None,
  \<open>Input\<close> returns a pad state whose button field is exactly
  \<open>PAD_ERR_STATUS\<close> (the error bit and no button bit) when
  \<open>WantsDeterminism\<close> is false, and the neutral state when it is true.
\<close>

theorem Input_no_controller:
  assumes indep: "masks_independent (masks e)"
    and wf: "wf_state s"
    and use: "UseAdapter e s"
    and sess: "session_open e s"
    and valid: "payload_valid e s"
    and chan: "in_range chan"
    and none: "decoded_type s chan = ControllerType_None"
  shows "\<exists>pad s'. Input e chan s = Some (pad, s') \<and>
           DeviceConnected chan s' = Some False \<and>
           (\<not> WantsDeterminism e \<longrightarrow>
              pad = GCPadStatus_init\<lparr>button := PAD_ERR_STATUS (masks e)\<rparr> \<and>
              pressed pad (PAD_ERR_STATUS (masks e)) \<and>
              button pad AND button_masks (masks e) = 0) \<and>
           (WantsDeterminism e \<longrightarrow> pad = GCPadStatus_init)"
proof -
  note dj = masks_disjoint [OF indep, unfolded mask_list_def, simplified]
  have err: "PAD_ERR_STATUS (masks e) \<noteq> 0"
    using dj by simp
  have "PAD_ERR_STATUS (masks e) AND button_masks (masks e) = 0"
    unfolding button_masks_def bit.conj_disj_distrib
    using dj by (simp add: and.commute)
  with err nat_chan_less [OF chan wf] chan show ?thesis
    unfolding Input_decode [OF use sess valid chan wf]
    by (simp add: none pressed_def DeviceConnected_def GCPadStatus_init_def)
qed

theorem Input_no_controller_witness:
  "\<exists>s'. Input libusb_env 1 session_state = Some (GCPadStatus_init\<lparr>button := 0x8000\<rparr>, s') \<and>
     DeviceConnected 1 s' = Some False"
proof -
  have "masks_independent (masks libusb_env)" "wf_state session_state"
    "UseAdapter libusb_env session_state" "session_open libusb_env session_state"
    "payload_valid libusb_env session_state" "in_range 1"
    "decoded_type session_state 1 = ControllerType_None"
    "\<not> WantsDeterminism libusb_env" "PAD_ERR_STATUS (masks libusb_env) = 0x8000"
    by (simp_all add: example_defs constant_defs guard_defs)
  with Input_no_controller [of libusb_env session_state 1] show ?thesis
    by auto
qed

subsection \<open>What Input leaves alone\<close>



subsection \<open>Staging a rumble command\<close>

lemma Output_eq:
  assumes "in_range chan"
  shows "Output e chan cmd s =
           Some (if rumble_changes e chan cmd s then stage_rumble e chan cmd s else s)"
  using assms
  by (auto simp: Output_def rumble_changes_def stage_rumble_def device_open_def Let_def)

lemma stage_rumble_settled:
  assumes "wf_state s" and "in_range chan"
  shows "\<not> rumble_changes e chan cmd (stage_rumble e chan cmd s)"
  using nat_chan_less [OF assms(2,1)] assms(1)
  by (simp add: rumble_changes_def stage_rumble_def Let_def wf_state_def)

text \<open>
  C4 (as amended). For a port in range, \<open>Output\<close> returns, and a second identical
  call changes nothing. The call is a no-op when the adapter is not in use, rumble is
  disabled for the port, no device is open (libusb: \<open>s_handle\<close> is null; Android: not
  detected or no file descriptor), the command equals the staged byte, or the tracked
  type is Wireless. Otherwise it stores the command as that port's rumble byte and
  signals the write thread, changing nothing else; in the libusb build the running
  write thread then sends exactly one payload, \<open>0x11\<close> and the four rumble bytes,
  and blocks again.
\<close>

theorem Output_effect:
  assumes wf: "wf_state s" and chan: "in_range chan"
  shows "\<exists>s1. Output e chan cmd s = Some s1 \<and> Output e chan cmd s1 = Some s1 \<and>
           (\<not> UseAdapter e s \<or> \<not> s_config_rumble_enabled s ! nat chan \<or> \<not> device_open e s \<or>
            cmd = s_controller_rumble s ! nat chan \<or>
            s_controller_type s ! nat chan = ControllerType_Wireless \<longrightarrow> s1 = s) \<and>
           (rumble_changes e chan cmd s \<longrightarrow>
              s1 = stage_rumble e chan cmd s \<and>
              s_controller_rumble s1 = (s_controller_rumble s)[nat chan := cmd] \<and>
              s_controller_rumble s1 ! nat chan = cmd \<and>
              (if android e then s_write_happened s1 else s_rumble_data_available s1) \<and>
              (\<not> android e \<and> s_adapter_thread_running s \<longrightarrow>
                 (\<exists>s2. Write_iteration s1 = Some s2 \<and>
                    usb_out s2 =
                      usb_out s @ [(s_endpoint_out s, rumble_payload (s_controller_rumble s1))] \<and>
                    Write_iteration s2 = None)))"
proof -
  let ?s1 = "if rumble_changes e chan cmd s then stage_rumble e chan cmd s else s"
  note len = nat_chan_less [OF chan wf]
  have first: "Output e chan cmd s = Some ?s1"
    by (rule Output_eq [OF chan])
  have "\<not> rumble_changes e chan cmd ?s1"
    using stage_rumble_settled [OF wf chan] by simp
  then have second: "Output e chan cmd ?s1 = Some ?s1"
    by (simp add: Output_eq [OF chan])
  have staged: "s_controller_rumble (stage_rumble e chan cmd s) = (s_controller_rumble s)[nat chan := cmd]"
    "if android e then s_write_happened (stage_rumble e chan cmd s)
     else s_rumble_data_available (stage_rumble e chan cmd s)"
    by (simp_all add: stage_rumble_def Let_def)
  have sent: "\<exists>s2. Write_iteration (stage_rumble e chan cmd s) = Some s2 \<and>
      usb_out s2 = usb_out s @ [(s_endpoint_out s,
         rumble_payload (s_controller_rumble (stage_rumble e chan cmd s)))] \<and>
      Write_iteration s2 = None"
    if "\<not> android e" "s_adapter_thread_running s"
    using that by (simp add: stage_rumble_def Write_iteration_def Let_def)
  have len2: "nat chan < length (s_controller_rumble s)"
    using len wf by (simp add: wf_state_def)
  let ?skip = "\<not> UseAdapter e s \<or> \<not> s_config_rumble_enabled s ! nat chan \<or>
      \<not> device_open e s \<or> cmd = s_controller_rumble s ! nat chan \<or>
      s_controller_type s ! nat chan = ControllerType_Wireless"
  have skip: "?skip \<longleftrightarrow> \<not> rumble_changes e chan cmd s"
    by (auto simp: rumble_changes_def)
  show ?thesis
  proof (cases "rumble_changes e chan cmd s")
    case True
    with first second staged sent len2 show ?thesis
      unfolding skip by simp
  next
    case False
    with first second show ?thesis
      unfolding skip by simp
  qed
qed

theorem Output_effect_witness:
  "(\<exists>s1 s2. Output libusb_env 0 5 session_state = Some s1 \<and>
      Output libusb_env 0 5 s1 = Some s1 \<and>
      s_controller_rumble s1 = [5, 0, 0, 0] \<and>
      Write_iteration s1 = Some s2 \<and> usb_out s2 = [(0x02, [0x11, 5, 0, 0, 0])] \<and>
      Write_iteration s2 = None) \<and>
   Output libusb_env 1 5 session_state = Some session_state"
proof -
  have first: "\<exists>s1 s2. Output libusb_env 0 5 session_state = Some s1 \<and>
      Output libusb_env 0 5 s1 = Some s1 \<and>
      s_controller_rumble s1 = [5, 0, 0, 0] \<and>
      Write_iteration s1 = Some s2 \<and> usb_out s2 = [(0x02, [0x11, 5, 0, 0, 0])] \<and>
      Write_iteration s2 = None"
    using Output_effect [of session_state 0 libusb_env 5]
    by (simp add: example_defs constant_defs guard_defs rumble_changes_def device_open_def
        rumble_payload_def stage_rumble_def Let_def)
  have "wf_state session_state" "in_range 1" "\<not> s_config_rumble_enabled session_state ! nat 1"
    by (simp_all add: example_defs constant_defs guard_defs)
  with Output_effect [of session_state 1 libusb_env 5]
  have "Output libusb_env 1 5 session_state = Some session_state"
    by auto
  with first show ?thesis
    by blast
qed

theorem Output_effect_counterexample:
  "UseAdapter libusb_env configured_idle \<and> s_config_rumble_enabled configured_idle ! 0 \<and>
   5 \<noteq> s_controller_rumble configured_idle ! 0 \<and>
   s_controller_type configured_idle ! 0 \<noteq> ControllerType_Wireless \<and>
   Output libusb_env 0 5 configured_idle = Some configured_idle"
  by (simp add: Output_def configured_idle_def example_defs constant_defs guard_defs)

subsection \<open>Resetting the session\<close>

text \<open>
  C5 (as amended). \<open>Reset\<close> changes nothing (and calls no callback) when no adapter
  is detected, and, in the libusb build, when another thread holds \<open>s_init_mutex\<close>.
  When an adapter is detected and the mutex is free (the Android build takes no
  mutex), every port's tracked type is None afterwards, so \<open>DeviceConnected\<close> is
  false for all four ports, the adapter is no longer detected, and the registered
  callback has been called exactly once (libusb build; the Android build has none).
\<close>

theorem Reset_effect:
  assumes wf: "wf_state s"
  shows "(\<not> IsDetected e s \<longrightarrow> Reset e s = s) \<and>
         (\<not> android e \<and> s_init_mutex s \<longrightarrow> Reset e s = s) \<and>
         (IsDetected e s \<and> (android e \<or> \<not> s_init_mutex s) \<longrightarrow>
            all_disconnected (Reset e s) \<and> \<not> IsDetected e (Reset e s) \<and>
            detect_callback_calls (Reset e s) =
              detect_callback_calls s + (if \<not> android e \<and> s_detect_callback s then 1 else 0))"
proof (intro conjI impI)
  assume "\<not> IsDetected e s"
  then show "Reset e s = s"
    by (auto simp: Reset_def IsDetected_def ADAPTER_DETECTED_def split: if_splits)
next
  assume "\<not> android e \<and> s_init_mutex s"
  then show "Reset e s = s"
    by (simp add: Reset_def)
next
  assume run: "IsDetected e s \<and> (android e \<or> \<not> s_init_mutex s)"
  then have "s_controller_type (Reset e s) = fill ControllerType_None (s_controller_type s)"
    by (auto simp: Reset_def IsDetected_def Let_def Read_leave_frame split: if_splits)
  then show "all_disconnected (Reset e s)"
    by (rule all_disconnected_fill [OF wf])
  from run show "\<not> IsDetected e (Reset e s)"
    by (auto simp: Reset_def IsDetected_def Let_def NO_ADAPTER_DETECTED_def ADAPTER_DETECTED_def
        split: if_splits)
  from run show "detect_callback_calls (Reset e s) =
      detect_callback_calls s + (if \<not> android e \<and> s_detect_callback s then 1 else 0)"
    by (auto simp: Reset_def IsDetected_def Let_def Read_leave_frame split: if_splits)
qed

theorem Reset_effect_witness:
  "all_disconnected (Reset libusb_env connected_session) \<and>
   detect_callback_calls (Reset libusb_env connected_session) = 1 \<and>
   Reset libusb_env configured_idle = configured_idle \<and>
   Reset libusb_env locked_session = locked_session"
  using Reset_effect [of connected_session libusb_env] Reset_effect [of configured_idle libusb_env]
    Reset_effect [of locked_session libusb_env]
  by (simp add: connected_session_def configured_idle_def locked_session_def IsDetected_def
      example_defs constant_defs guard_defs)

theorem Reset_effect_counterexample:
  "IsDetected libusb_env locked_session \<and> s_handle locked_session \<noteq> None \<and>
   Reset libusb_env locked_session = locked_session \<and>
   DeviceConnected 0 (Reset libusb_env locked_session) = Some True"
  by (simp add: Reset_def IsDetected_def DeviceConnected_def locked_session_def example_defs
      constant_defs in_range_def)

subsection \<open>Probing a device\<close>

text \<open>
  C8. For a device whose descriptor cannot be read, or whose vendor/product pair is
  not \<open>0x057e\<close>/\<open>0x0337\<close>, \<open>CheckDeviceAccess\<close> returns false and leaves the
  whole state as it was.
\<close>

theorem CheckDeviceAccess_rejects:
  assumes "get_device_descriptor_ret device \<noteq> 0 \<or>
           idVendor device \<noteq> 0x057e \<or> idProduct device \<noteq> 0x0337"
  shows "CheckDeviceAccess e device s = (False, s)"
  using assms by (auto simp: CheckDeviceAccess_def Let_def)

theorem CheckDeviceAccess_rejects_witness:
  "CheckDeviceAccess libusb_env other_device configured_idle = (False, configured_idle)"
  using CheckDeviceAccess_rejects [of other_device libusb_env configured_idle]
  by (simp add: other_device_def)

subsection \<open>Repeated initialisation\<close>

lemma channels: "[0 ..< MAX_SI_CHANNELS] = [0, 1, 2, 3]"
  by (simp add: MAX_SI_CHANNELS_def upt_rec)

lemma StartScanThread_frame:
  assumes "StartScanThread e s = Some s1"
  shows "s_handle s1 = s_handle s" "s_fd s1 = s_fd s" "s_last_init s1 = s_last_init s"
  using assms
  by (auto simp: StartScanThread_def split: if_splits option.splits)

lemma Init_suppressed_eq:
  assumes "\<not> session_held e s" and "rate_limited e s"
  shows "Init e s =
           Some (if android e then s else s\<lparr>s_libusb_context := Some (new_context_valid e)\<rparr>)"
  using assms
  by (simp add: Init_def session_held_def rate_limited_def core_active_def Let_def)

lemma Init_unsuppressed:
  assumes "\<not> session_held e s" and "core_active e" and "\<not> rate_limited e s"
    and "Init e s = Some s1"
  shows "s_last_init s1 = GetTicks e" "session_held e s1 = session_held e s"
proof -
  let ?s0 = "if android e then s else s\<lparr>s_libusb_context := Some (new_context_valid e)\<rparr>"
  let ?s1 = "?s0\<lparr>s_last_init := GetTicks e\<rparr>"
  let ?s2 = "if android e then ?s1 else ?s1\<lparr>s_status := NO_ADAPTER_DETECTED\<rparr>"
  let ?s3 = "if s_config_callback_id ?s2 = None
             then ?s2\<lparr>s_config_callback_id := Some (new_callback_id e)\<rparr> else ?s2"
  let ?s4 = "RefreshConfig e ?s3"
  have run: "Init e s = (if UseAdapter e ?s4 then StartScanThread e ?s4 else Some ?s4)"
    using assms(1-3)
    by (simp add: Init_def session_held_def rate_limited_def core_active_def Let_def)
  have base: "s_last_init ?s4 = GetTicks e" "s_handle ?s4 = s_handle s" "s_fd ?s4 = s_fd s"
    by (simp_all add: RefreshConfig_def)
  have "s_last_init s1 = GetTicks e \<and> s_handle s1 = s_handle s \<and> s_fd s1 = s_fd s"
  proof (cases "UseAdapter e ?s4")
    case True
    with run assms(4) have "StartScanThread e ?s4 = Some s1"
      by simp
    from StartScanThread_frame [OF this] base show ?thesis
      by simp
  next
    case False
    with run assms(4) have "s1 = ?s4"
      by simp
    with base show ?thesis
      by simp
  qed
  then show "s_last_init s1 = GetTicks e" "session_held e s1 = session_held e s"
    by (simp_all add: session_held_def)
qed

text \<open>
  C9 (as amended). \<open>Init\<close> with a session open changes nothing. With no session
  open and the core active, a call made fewer than \<open>GetTicksPerSecond\<close> ticks (a
  wrapping 64-bit difference) after \<open>s_last_init\<close> is suppressed: it changes nothing
  but the libusb context (Android: nothing), so no callback is registered, the
  configuration snapshot is not refreshed, the scan thread is not started and
  \<open>s_last_init\<close> stays. \<open>s_last_init\<close> is the tick count of the last call that passed the
  rate limit while the core was active: such a call records its tick count, so a further
  call less than \<open>GetTicksPerSecond\<close> ticks after it is suppressed. A suppressed call
  does not move \<open>s_last_init\<close>.
\<close>

theorem Init_idempotent:
  "(session_held e s \<longrightarrow> Init e s = Some s) \<and>
   (\<not> session_held e s \<and> rate_limited e s \<longrightarrow>
      (\<exists>s1. Init e s = Some s1 \<and> s1\<lparr>s_libusb_context := s_libusb_context s\<rparr> = s \<and>
         (android e \<longrightarrow> s1 = s) \<and>
         s_config_callback_id s1 = s_config_callback_id s \<and>
         s_config_si_device_type s1 = s_config_si_device_type s \<and>
         s_config_rumble_enabled s1 = s_config_rumble_enabled s \<and>
         s_adapter_detect_thread_running s1 = s_adapter_detect_thread_running s \<and>
         s_last_init s1 = s_last_init s)) \<and>
   (\<forall>s1 e'. \<not> session_held e s \<and> core_active e \<and> \<not> rate_limited e s \<and>
       Init e s = Some s1 \<and> android e' = android e \<and> core_active e' \<and>
       GetTicks e' - GetTicks e < GetTicksPerSecond e' \<longrightarrow>
       Init e' s1 =
         Some (if android e' then s1 else s1\<lparr>s_libusb_context := Some (new_context_valid e')\<rparr>))"
proof (intro conjI impI allI)
  assume "session_held e s"
  then show "Init e s = Some s"
    by (simp add: Init_def session_held_def)
next
  assume "\<not> session_held e s \<and> rate_limited e s"
  then have "Init e s =
      Some (if android e then s else s\<lparr>s_libusb_context := Some (new_context_valid e)\<rparr>)"
    by (simp add: Init_suppressed_eq)
  then show "\<exists>s1. Init e s = Some s1 \<and> s1\<lparr>s_libusb_context := s_libusb_context s\<rparr> = s \<and>
         (android e \<longrightarrow> s1 = s) \<and>
         s_config_callback_id s1 = s_config_callback_id s \<and>
         s_config_si_device_type s1 = s_config_si_device_type s \<and>
         s_config_rumble_enabled s1 = s_config_rumble_enabled s \<and>
         s_adapter_detect_thread_running s1 = s_adapter_detect_thread_running s \<and>
         s_last_init s1 = s_last_init s"
    by simp
next
  fix s1 e'
  assume a: "\<not> session_held e s \<and> core_active e \<and> \<not> rate_limited e s \<and>
       Init e s = Some s1 \<and> android e' = android e \<and> core_active e' \<and>
       GetTicks e' - GetTicks e < GetTicksPerSecond e'"
  then have "s_last_init s1 = GetTicks e" "session_held e s1 = session_held e s"
    using Init_unsuppressed [of e s s1] by simp_all
  with a have "\<not> session_held e' s1" "rate_limited e' s1"
    by (simp_all add: session_held_def rate_limited_def)
  then show "Init e' s1 =
      Some (if android e' then s1 else s1\<lparr>s_libusb_context := Some (new_context_valid e')\<rparr>)"
    by (rule Init_suppressed_eq)
qed


theorem Init_idempotent_witness:
  "Init libusb_env session_state = Some session_state \<and>
   (\<exists>s1. Init libusb_env configured_idle = Some s1 \<and>
      s1\<lparr>s_libusb_context := s_libusb_context configured_idle\<rparr> = configured_idle) \<and>
   (\<exists>s1. Init later_env configured_idle = Some s1 \<and>
      Init soon_env s1 = Some (s1\<lparr>s_libusb_context := Some False\<rparr>))"
proof -
  have held: "session_held libusb_env session_state"
    by (simp add: session_held_def example_defs)
  have idle: "\<not> session_held libusb_env configured_idle"
    "\<not> session_held later_env configured_idle"
    by (simp_all add: session_held_def configured_idle_def later_env_def example_defs)
  have limited: "rate_limited libusb_env configured_idle"
    by (simp add: rate_limited_def core_active_def configured_idle_def example_defs)
  have free: "core_active later_env" "\<not> rate_limited later_env configured_idle"
    by (simp_all add: rate_limited_def core_active_def configured_idle_def later_env_def
        example_defs)
  have soon: "android soon_env = android later_env" "core_active soon_env"
    "GetTicks soon_env - GetTicks later_env < GetTicksPerSecond soon_env"
    "\<not> android soon_env" "new_context_valid soon_env = False"
    by (simp_all add: core_active_def soon_env_def later_env_def example_defs)
  obtain s1 where run: "Init later_env configured_idle = Some s1"
    by (simp add: Init_def Let_def StartScanThread_def RefreshConfig_def UseAdapter_def
        configured_idle_def later_env_def example_defs constant_defs)
  have first: "Init libusb_env session_state = Some session_state"
    using Init_idempotent [of libusb_env session_state] held by blast
  have second: "\<exists>s1. Init libusb_env configured_idle = Some s1 \<and>
      s1\<lparr>s_libusb_context := s_libusb_context configured_idle\<rparr> = configured_idle"
    using Init_idempotent [of libusb_env configured_idle] idle(1) limited
    by blast
  have third: "Init soon_env s1 = Some (s1\<lparr>s_libusb_context := Some False\<rparr>)"
    using Init_idempotent [of later_env configured_idle] idle(2) free run soon
    by simp
  from first second third run show ?thesis
    by blast
qed

text \<open>
  The claim as first stated fails: the second call is suppressed and leaves
  \<open>s_last_init\<close> alone, so the third, made within a second of the second while the
  core runs, is carried out: it records its tick count and refreshes the snapshot.
\<close>

theorem Init_idempotent_counterexample:
  "Init later_env configured_idle = Some accepted_state \<and>
   Init within_env accepted_state = Some accepted_state \<and>
   GetState after_env = Running \<and>
   GetTicks after_env - GetTicks within_env < GetTicksPerSecond after_env \<and>
   s_config_rumble_enabled accepted_state = [True, False, False, False] \<and>
   map_option s_config_rumble_enabled (Init after_env accepted_state) =
     Some [True, True, True, True] \<and>
   map_option s_last_init (Init after_env accepted_state) = Some 986001000"
  by (simp add: Init_def Let_def StartScanThread_def RefreshConfig_def UseAdapter_def channels
      accepted_state_def configured_idle_def within_env_def after_env_def later_env_def
      libusb_env_def gc_masks_def idle_state_def NO_ADAPTER_DETECTED_def)

subsection \<open>The init payload and the rumble payloads\<close>

lemma Reset_out:
  "usb_out (Reset e s) = usb_out s" "s_endpoint_out (Reset e s) = s_endpoint_out s"
  by (simp_all add: Reset_def Let_def Read_leave_frame)

lemma Input_out:
  assumes "Input e chan s = Some (pad, s')"
  shows "usb_out s' = usb_out s \<and> s_endpoint_out s' = s_endpoint_out s"
proof -
  consider (closed) "\<not> UseAdapter e s \<or> \<not> session_open e s"
    | (invalid) "\<not> payload_valid e s"
    | (decode) "UseAdapter e s" "session_open e s" "payload_valid e s"
    by blast
  then show ?thesis
  proof cases
    case closed
    from Input_closed [OF this, of chan] assms show ?thesis
      by simp
  next
    case invalid
    from Input_invalid [OF this, of chan] assms show ?thesis
      by (auto simp: Reset_out)
  next
    case decode
    from Input_decode_state [OF decode assms] show ?thesis
      by simp
  qed
qed

lemma rumble_transfer_payload: "rumble_transfer (ep, rumble_payload r)"
  by (simp add: rumble_transfer_def rumble_payload_def CONTROLER_OUTPUT_RUMBLE_PAYLOAD_SIZE_def)

lemma apply_event_out:
  assumes "apply_event e ev s = Some s'"
  shows "s_endpoint_out s' = s_endpoint_out s \<and>
         (\<exists>rs. usb_out s' = usb_out s @ rs \<and> list_all rumble_transfer rs)"
proof (cases ev)
  case (Ev_Input chan)
  with assms obtain pad where "Input e chan s = Some (pad, s')"
    by auto
  from Input_out [OF this] show ?thesis
    by simp
next
  case (Ev_Output chan cmd)
  with assms show ?thesis
    by (auto simp: Output_def Let_def split: if_splits)
next
  case Ev_ResetRumble
  with assms show ?thesis
    by (auto simp: ResetRumble_def ResetRumbleLockNeeded_def Let_def rumble_transfer_payload)
next
  case (Ev_ResetDeviceType chan)
  with assms show ?thesis
    by (auto simp: ResetDeviceType_def split: if_splits)
next
  case Ev_Write
  with assms show ?thesis
    by (auto simp: Write_iteration_def Let_def rumble_transfer_payload split: if_splits)
next
  case (Ev_Read data n)
  with assms show ?thesis
    by (auto simp: Read_iteration_def Let_def split: if_splits)
qed

lemma session_run_out:
  assumes "session_run e evs s = Some s'"
  shows "s_endpoint_out s' = s_endpoint_out s \<and>
         (\<exists>rs. usb_out s' = usb_out s @ rs \<and> list_all rumble_transfer rs)"
  using assms
proof (induction evs arbitrary: s)
  case Nil
  then show ?case
    by simp
next
  case (Cons ev evs)
  then obtain s1 where step: "apply_event e ev s = Some s1"
    and rest: "session_run e evs s1 = Some s'"
    by (auto split: option.splits)
  from apply_event_out [OF step] obtain rs where
    one: "s_endpoint_out s1 = s_endpoint_out s" "usb_out s1 = usb_out s @ rs"
      "list_all rumble_transfer rs"
    by blast
  from Cons.IH [OF rest] obtain rs' where
    more: "s_endpoint_out s' = s_endpoint_out s1" "usb_out s' = usb_out s1 @ rs'"
      "list_all rumble_transfer rs'"
    by blast
  from one more have "usb_out s' = usb_out s @ (rs @ rs')" "list_all rumble_transfer (rs @ rs')"
    by simp_all
  with one more show ?case
    by metis
qed

lemma CheckDeviceAccess_out:
  assumes "CheckDeviceAccess e device s = (ok, s1)"
  shows "usb_out s1 = usb_out s"
  using assms
  by (auto simp: CheckDeviceAccess_def Let_def split: if_splits)

lemma foldl_scan_endpoint_out: "usb_out (foldl scan_endpoint s eps) = usb_out s"
  by (induction eps arbitrary: s) (simp_all add: scan_endpoint_def)

lemma AddGCAdapter_out:
  assumes "config_descriptor device = Some config"
  shows "\<exists>s2 rs. AddGCAdapter e device s = Some s2 \<and>
           usb_out s2 = usb_out s @ (s_endpoint_out s2, [0x13]) # rs \<and>
           list_all rumble_transfer rs"
  using assms
  by (simp add: AddGCAdapter_def ResetRumbleLockNeeded_def Let_def foldl_scan_endpoint_out
      rumble_transfer_payload)

text \<open>
  C6. After \<open>CheckDeviceAccess\<close> has claimed a device whose configuration descriptor
  can be read, \<open>AddGCAdapter\<close> returns, and whatever the emulator and the two I/O
  threads then do during the session, the transfers issued to the output endpoint since
  before the claim are the init payload (the single byte \<open>0x13\<close>) followed only by
  rumble payloads of five bytes starting with \<open>0x11\<close>; each payload the write thread
  sends is \<open>0x11\<close> followed by the four rumble bytes.
\<close>

theorem init_payload_first:
  assumes claimed: "CheckDeviceAccess e device s = (True, s1)"
    and readable: "config_descriptor device \<noteq> None"
  shows "\<exists>s2. AddGCAdapter e device s1 = Some s2 \<and>
           (\<forall>evs s'. session_run e evs s2 = Some s' \<longrightarrow>
              (\<exists>rs. usb_out s' = usb_out s @ (s_endpoint_out s2, [0x13]) # rs \<and>
                    list_all rumble_transfer rs)) \<and>
           (\<forall>t t'. s_adapter_thread_running t \<and> Write_iteration t = Some t' \<longrightarrow>
              usb_out t' =
                usb_out t @
                  [(s_endpoint_out t,
                    [0x11, s_controller_rumble t ! 0, s_controller_rumble t ! 1,
                     s_controller_rumble t ! 2, s_controller_rumble t ! 3])])"
proof -
  from readable obtain cfg where "config_descriptor device = Some cfg"
    by auto
  from AddGCAdapter_out [OF this, of e s1] obtain s2 rs where
    add: "AddGCAdapter e device s1 = Some s2"
      "usb_out s2 = usb_out s1 @ (s_endpoint_out s2, [0x13]) # rs" "list_all rumble_transfer rs"
    by blast
  have before: "usb_out s1 = usb_out s"
    by (rule CheckDeviceAccess_out [OF claimed])
  have trace: "\<exists>rs'. usb_out s' = usb_out s @ (s_endpoint_out s2, [0x13]) # rs' \<and>
      list_all rumble_transfer rs'" if "session_run e evs s2 = Some s'" for evs s'
  proof -
    from session_run_out [OF that] obtain rs' where
      "usb_out s' = usb_out s2 @ rs'" "list_all rumble_transfer rs'"
      by blast
    with add before have "usb_out s' = usb_out s @ (s_endpoint_out s2, [0x13]) # (rs @ rs')"
      "list_all rumble_transfer (rs @ rs')"
      by simp_all
    then show ?thesis
      by blast
  qed
  have sends: "usb_out t' = usb_out t @
      [(s_endpoint_out t,
        [0x11, s_controller_rumble t ! 0, s_controller_rumble t ! 1,
         s_controller_rumble t ! 2, s_controller_rumble t ! 3])]"
    if "s_adapter_thread_running t \<and> Write_iteration t = Some t'" for t t'
    using that
    by (auto simp: Write_iteration_def Let_def rumble_payload_def split: if_splits)
  from add(1) trace sends show ?thesis
    by blast
qed


theorem init_payload_first_witness:
  "\<exists>s1 s2 s'.
     CheckDeviceAccess libusb_env gc_adapter configured_idle = (True, s1) \<and>
     AddGCAdapter libusb_env gc_adapter s1 = Some s2 \<and>
     session_run libusb_env [Ev_Output 0 5, Ev_Output 0 5, Ev_Write] s2 = Some s' \<and>
     (\<exists>rs. usb_out s' = (0x02, [0x13]) # rs \<and> list_all rumble_transfer rs)"
proof -
  let ?s1 = "configured_idle\<lparr>s_handle := Some 3\<rparr>"
  let ?evs = "[Ev_Output 0 5, Ev_Output 0 5, Ev_Write]"
  have claimed: "CheckDeviceAccess libusb_env gc_adapter configured_idle = (True, ?s1)"
    by (simp add: CheckDeviceAccess_def Let_def gc_adapter_def other_device_def
        LIBUSB_ERROR_ACCESS_def)
  have readable: "config_descriptor gc_adapter \<noteq> None"
    by (simp add: gc_adapter_def other_device_def)
  have "\<exists>s2 s'. AddGCAdapter libusb_env gc_adapter ?s1 = Some s2 \<and>
      session_run libusb_env ?evs s2 = Some s' \<and> s_endpoint_out s2 = 0x02"
    by (simp add: AddGCAdapter_def ResetRumbleLockNeeded_def Output_def Write_iteration_def
        scan_endpoint_def fill_def Let_def gc_adapter_def other_device_def configured_idle_def
        example_defs constant_defs UseAdapter_def in_range_def LIBUSB_ENDPOINT_IN_def)
  then obtain s2 s' where run: "AddGCAdapter libusb_env gc_adapter ?s1 = Some s2"
    "session_run libusb_env ?evs s2 = Some s'" "s_endpoint_out s2 = 0x02"
    by blast
  have start: "usb_out configured_idle = []"
    by (simp add: configured_idle_def idle_state_def)
  from init_payload_first [OF claimed readable] obtain t2 where
    added: "AddGCAdapter libusb_env gc_adapter ?s1 = Some t2"
    and trace: "\<And>evs s'. session_run libusb_env evs t2 = Some s' \<Longrightarrow>
      \<exists>rs. usb_out s' = usb_out configured_idle @ (s_endpoint_out t2, [0x13]) # rs \<and>
        list_all rumble_transfer rs"
    by blast
  from added run(1) have "t2 = s2"
    by simp
  with trace run(2) have "\<exists>rs. usb_out s' =
      usb_out configured_idle @ (s_endpoint_out s2, [0x13]) # rs \<and> list_all rumble_transfer rs"
    by blast
  with start run(3)
  have "\<exists>rs. usb_out s' = (0x02, [0x13]) # rs \<and> list_all rumble_transfer rs"
    by simp
  with claimed run show ?thesis
    by blast
qed

end
